theory Spec2Isabelle
  imports Complex_Main "HOL-Library.Log_Nat"
begin

section \<open>JavaScript values used by the component\<close>

text \<open>
  A JavaScript Number is an IEEE 754 binary64 value.  A finite value is kept as the
  rational it denotes; the two zeros are identified, since the component only adds,
  multiplies, divides by a non-zero total, compares with \<open>===\<close> and prints, and
  none of these tells \<open>+0\<close> from \<open>-0\<close> in what is shown.
\<close>

datatype jsnum = NaN | PInf | NInf | Fin rat

text \<open>Truthiness of a Number: every value except zero and NaN.\<close>

fun truthy_num :: "jsnum \<Rightarrow> bool" where
  "truthy_num NaN = False"
| "truthy_num (Fin q) = (q \<noteq> 0)"
| "truthy_num PInf = True"
| "truthy_num NInf = True"

text \<open>An optional property: \<open>None\<close> is \<open>undefined\<close>, which is falsy.\<close>

definition truthy_str :: "string option \<Rightarrow> bool" where
  "truthy_str s = (case s of None \<Rightarrow> False | Some t \<Rightarrow> t \<noteq> [])"

definition truthy_opt_num :: "jsnum option \<Rightarrow> bool" where
  "truthy_opt_num n = (case n of None \<Rightarrow> False | Some x \<Rightarrow> truthy_num x)"

text \<open>
  Strict equality \<open>===\<close> on optional Numbers: \<open>undefined === undefined\<close> holds,
  a Number never equals \<open>undefined\<close>, and NaN equals nothing.
\<close>

definition strict_eq :: "jsnum option \<Rightarrow> jsnum option \<Rightarrow> bool" where
  "strict_eq a b = (a = b \<and> a \<noteq> Some NaN)"

section \<open>Number arithmetic\<close>

text \<open>
  \<open>ilog2 a\<close> is the binary exponent of a positive rational:
  \<open>2 ^ ilog2 a \<le> a < 2 ^ (ilog2 a + 1)\<close>.
\<close>

definition ilog2 :: "rat \<Rightarrow> int" where
  "ilog2 a = (if 1 \<le> a then bitlen \<lfloor>a\<rfloor> - 1 else - bitlen (\<lceil>1 / a\<rceil> - 1))"

definition round_half_even :: "rat \<Rightarrow> int" where
  "round_half_even x =
     (let f = \<lfloor>x\<rfloor>; d = x - of_int f
      in if d < 1 / 2 then f else if 1 / 2 < d then f + 1 else if even f then f else f + 1)"

text \<open>
  Rounding of an exact result to binary64, to nearest with ties to even: 53 significant
  bits, the exponent not below \<open>-1022\<close> (subnormal numbers share the spacing
  \<open>2 ^ -1074\<close>), and overflow to infinity from \<open>2 ^ 1024\<close> on.
\<close>

definition round64 :: "rat \<Rightarrow> jsnum" where
  "round64 q =
     (if q = 0 then Fin 0
      else
        let a = \<bar>q\<bar>;
            e = max (ilog2 a) (- 1022);
            ulp = 2 powi (e - 52);
            r = of_int (round_half_even (a / ulp)) * ulp
        in if (2::int) ^ 1024 \<le> \<lfloor>r\<rfloor> then (if 0 < q then PInf else NInf)
           else Fin (if 0 < q then r else - r))"

fun sign_of :: "jsnum \<Rightarrow> int" where
  "sign_of NaN = 0"
| "sign_of PInf = 1"
| "sign_of NInf = - 1"
| "sign_of (Fin q) = (if 0 < q then 1 else if q < 0 then - 1 else 0)"

definition inf_of_sign :: "int \<Rightarrow> jsnum" where
  "inf_of_sign s = (if 0 < s then PInf else if s < 0 then NInf else NaN)"

text \<open>The operators \<open>+\<close>, \<open>*\<close> and \<open>/\<close> on Numbers.\<close>

fun jsadd :: "jsnum \<Rightarrow> jsnum \<Rightarrow> jsnum" where
  "jsadd (Fin a) (Fin b) = round64 (a + b)"
| "jsadd NaN _ = NaN"
| "jsadd _ NaN = NaN"
| "jsadd PInf NInf = NaN"
| "jsadd NInf PInf = NaN"
| "jsadd PInf _ = PInf"
| "jsadd _ PInf = PInf"
| "jsadd NInf _ = NInf"
| "jsadd _ NInf = NInf"

fun jsmul :: "jsnum \<Rightarrow> jsnum \<Rightarrow> jsnum" where
  "jsmul (Fin a) (Fin b) = round64 (a * b)"
| "jsmul NaN _ = NaN"
| "jsmul _ NaN = NaN"
| "jsmul x y = inf_of_sign (sign_of x * sign_of y)"

text \<open>
  Division.  A zero divisor is taken as \<open>+0\<close>; the component divides by
  \<open>totalCredits\<close> only after \<open>totalCredits === 0\<close> has failed.
\<close>

fun jsdiv :: "jsnum \<Rightarrow> jsnum \<Rightarrow> jsnum" where
  "jsdiv (Fin a) (Fin b) = (if b = 0 then inf_of_sign (sign_of (Fin a)) else round64 (a / b))"
| "jsdiv NaN _ = NaN"
| "jsdiv _ NaN = NaN"
| "jsdiv (Fin a) _ = Fin 0"
| "jsdiv x (Fin b) = inf_of_sign (sign_of x * (if b < 0 then - 1 else 1))"
| "jsdiv _ _ = NaN"

text \<open>\<open>Math.floor\<close> and \<open>===\<close> on Numbers.\<close>

fun js_floor :: "jsnum \<Rightarrow> jsnum" where
  "js_floor (Fin q) = Fin (of_int \<lfloor>q\<rfloor>)"
| "js_floor x = x"

definition js_seq :: "jsnum \<Rightarrow> jsnum \<Rightarrow> bool" where
  "js_seq x y = (x = y \<and> x \<noteq> NaN)"

section \<open>Number to string\<close>

fun digits :: "nat \<Rightarrow> string" where
  "digits n =
     (if n < 10 then [''0123456789'' ! n]
      else digits (n div 10) @ [''0123456789'' ! (n mod 10)])"

declare digits.simps [simp del]

definition ndigits :: "nat \<Rightarrow> nat" where
  "ndigits n = (if n = 0 then 0 else length (digits n))"

text \<open>The decimal exponent of a positive rational: \<open>10 ^ ilog10 x \<le> x < 10 ^ (ilog10 x + 1)\<close>.\<close>

definition ilog10 :: "rat \<Rightarrow> int" where
  "ilog10 x =
     (if 1 \<le> x then int (ndigits (nat \<lfloor>x\<rfloor>)) - 1
      else - int (ndigits (nat (\<lceil>1 / x\<rceil> - 1))))"

text \<open>
  \<open>Number.prototype.toString\<close> prints the shortest decimal \<open>s \<times> 10 ^ ex\<close> that
  reads back as the same Number.  \<open>cand x ex\<close> tries the two neighbours of \<open>x\<close> at
  decimal exponent \<open>ex\<close> and prefers the nearer one.
\<close>

definition cand :: "rat \<Rightarrow> int \<Rightarrow> (nat \<times> int) option" where
  "cand x ex =
     (let sc = 10 powi ex;
          lo = \<lfloor>x / sc\<rfloor>;
          okl = (round64 (of_int lo * sc) = Fin x);
          okh = (round64 (of_int (lo + 1) * sc) = Fin x)
      in if okl \<and> okh then
           (if x - of_int lo * sc \<le> of_int (lo + 1) * sc - x then Some (nat lo, ex)
            else Some (nat (lo + 1), ex))
         else if okl then Some (nat lo, ex)
         else if okh then Some (nat (lo + 1), ex)
         else None)"

fun shortest :: "nat \<Rightarrow> rat \<Rightarrow> int \<Rightarrow> nat \<times> int" where
  "shortest 0 x ex = (nat \<lfloor>x / 10 powi ex\<rfloor>, ex)"
| "shortest (Suc fuel) x ex =
     (case cand x ex of Some r \<Rightarrow> r | None \<Rightarrow> shortest fuel x (ex - 1))"

text \<open>
  The layout rules of \<open>Number::toString\<close> for a positive value with digits \<open>ds\<close>
  and the decimal point after \<open>n\<close> digits.
\<close>

definition layout :: "string \<Rightarrow> int \<Rightarrow> string" where
  "layout ds n =
     (let k = int (length ds)
      in if k \<le> n \<and> n \<le> 21 then ds @ replicate (nat (n - k)) (CHR ''0'')
         else if 0 < n \<and> n \<le> 21 then take (nat n) ds @ ''.'' @ drop (nat n) ds
         else if - 6 < n \<and> n \<le> 0 then ''0.'' @ replicate (nat (- n)) (CHR ''0'') @ ds
         else
           let e = n - 1;
               es = (if e < 0 then ''-'' else ''+'') @ digits (nat \<bar>e\<bar>)
           in if k = 1 then ds @ ''e'' @ es
              else take 1 ds @ ''.'' @ drop 1 ds @ ''e'' @ es)"

definition js_toString :: "jsnum \<Rightarrow> string" where
  "js_toString x =
     (case x of
        NaN \<Rightarrow> ''NaN''
      | PInf \<Rightarrow> ''Infinity''
      | NInf \<Rightarrow> ''-Infinity''
      | Fin q \<Rightarrow>
          if q = 0 then ''0''
          else
            let (s, ex) = shortest 17 \<bar>q\<bar> (ilog10 \<bar>q\<bar>);
                ds0 = digits s;
                ds = rev (dropWhile (\<lambda>c. c = CHR ''0'') (rev ds0));
                n = int (length ds0) + ex
            in (if q < 0 then ''-'' else []) @ layout ds n)"

text \<open>
  \<open>Number.prototype.toFixed(f)\<close>: from \<open>10 ^ 21\<close> on it is \<open>toString\<close>; below,
  the digits of the integer \<open>n\<close> nearest to \<open>x \<times> 10 ^ f\<close> (the larger one on a
  tie), padded with zeros so that \<open>f\<close> of them follow the point.
\<close>

definition toFixed :: "nat \<Rightarrow> jsnum \<Rightarrow> string" where
  "toFixed f x =
     (case x of
        Fin q \<Rightarrow>
          if 10 ^ 21 \<le> \<bar>q\<bar> then js_toString x
          else
            let n = nat \<lfloor>\<bar>q\<bar> * 10 ^ f + 1 / 2\<rfloor>;
                m = digits n;
                m' = (if f = 0 then m
                      else
                        let z = replicate (Suc f - length m) (CHR ''0'') @ m;
                            k = length z
                        in take (k - f) z @ ''.'' @ drop (k - f) z)
            in (if q < 0 then ''-'' else []) @ m'
      | _ \<Rightarrow> js_toString x)"

section \<open>Data model\<close>

text \<open>
  \<open>interface ClassEntry\<close>.  The roster is filled from \<open>JSON.parse\<close> and from
  \<open>{ ...currentClass, semester } as ClassEntry\<close>, and the draft is a
  \<open>Partial<ClassEntry>\<close>, so every property may be \<open>undefined\<close> at run time:
  one record with optional fields stands for both.
\<close>

record ClassEntry =
  id' :: "jsnum option"
  name :: "string option"
  grade :: "string option"
  credits :: "jsnum option"
  semester :: "string option"

text \<open>The state hooks of \<open>Window\<close>.\<close>

record Window =
  isModalOpen :: bool
  isEditMode :: bool
  classes :: "ClassEntry list"
  currentClass :: ClassEntry
  term' :: string
  year :: string

text \<open>The draft that \<open>useState\<close>, \<open>handleOpenAddModal\<close> and \<open>handleSaveClass\<close> install.\<close>

definition emptyClass :: ClassEntry where
  "emptyClass = \<lparr> id' = None, name = Some [], grade = Some [], credits = None, semester = Some [] \<rparr>"

definition initialWindow :: Window where
  "initialWindow = \<lparr> isModalOpen = False, isEditMode = False, classes = [],
     currentClass = emptyClass, term' = [], year = [] \<rparr>"

section \<open>Semester encoding\<close>

fun getTermAbbreviation :: "string \<Rightarrow> string" where
  "getTermAbbreviation fullTerm =
     (if fullTerm = ''Spring'' then ''SP''
      else if fullTerm = ''Fall'' then ''FA''
      else if fullTerm = ''Summer'' then ''SM''
      else if fullTerm = ''Winter'' then ''WN''
      else fullTerm)"

fun getFullTermName :: "string \<Rightarrow> string" where
  "getFullTermName abbreviation =
     (if abbreviation = ''SP'' then ''Spring''
      else if abbreviation = ''FA'' then ''Fall''
      else if abbreviation = ''SM'' then ''Summer''
      else if abbreviation = ''WN'' then ''Winter''
      else abbreviation)"

text \<open>\<open>s.split(" ")\<close>: cut at every single space; the empty string gives one empty token.\<close>

fun split_space :: "string \<Rightarrow> string list" where
  "split_space [] = [[]]"
| "split_space (c # cs) =
     (if c = CHR '' '' then [] # split_space cs
      else (case split_space cs of [] \<Rightarrow> [[c]] | p # ps \<Rightarrow> (c # p) # ps))"

text \<open>
  The local variable \<open>semester\<close> of \<open>handleSaveClass\<close>:
  \<open>let semester = ""; if (term && year) semester = `${termAbbr} ${year}`\<close>.
\<close>

definition encodeSemester :: "string \<Rightarrow> string \<Rightarrow> string" where
  "encodeSemester t y =
     (if t \<noteq> [] \<and> y \<noteq> [] then getTermAbbreviation t @ '' '' @ y else [])"

section \<open>Handlers\<close>

definition handleOpenAddModal :: "Window \<Rightarrow> Window" where
  "handleOpenAddModal w =
     w\<lparr> isEditMode := False, currentClass := emptyClass, term' := [], year := [],
        isModalOpen := True \<rparr>"

text \<open>
  \<open>handleOpenEditModal\<close>.  With a truthy semester that does not split into two
  tokens neither \<open>setTerm\<close> nor \<open>setYear\<close> is called: both keep their values.
\<close>

definition handleOpenEditModal :: "ClassEntry \<Rightarrow> Window \<Rightarrow> Window" where
  "handleOpenEditModal cls w =
     (let w1 = w\<lparr> isEditMode := True, currentClass := cls \<rparr>;
          w2 = (case semester cls of
                  Some s \<Rightarrow>
                    if s \<noteq> [] then
                      (case split_space s of
                         [p0, p1] \<Rightarrow> w1\<lparr> term' := getFullTermName p0, year := p1 \<rparr>
                       | _ \<Rightarrow> w1)
                    else w1\<lparr> term' := [], year := [] \<rparr>
                | None \<Rightarrow> w1\<lparr> term' := [], year := [] \<rparr>)
      in w2\<lparr> isModalOpen := True \<rparr>)"

text \<open>The Cancel button and the dialog's \<open>onOpenChange\<close>: \<open>setIsModalOpen(false)\<close> only.\<close>

definition handleCancel :: "Window \<Rightarrow> Window" where
  "handleCancel w = w\<lparr> isModalOpen := False \<rparr>"

definition isFormValid :: "Window \<Rightarrow> bool" where
  "isFormValid w =
     (truthy_str (name (currentClass w)) \<and> truthy_str (grade (currentClass w)) \<and>
      truthy_opt_num (credits (currentClass w)) \<and> term' w \<noteq> [] \<and> year w \<noteq> [])"

text \<open>
  \<open>handleSaveClass\<close>; \<open>now\<close> is what \<open>Date.now()\<close> returns, in milliseconds.
  \<open>None\<close> is the early \<open>return\<close>, on which no state setter is called.
\<close>

definition handleSaveClass :: "int \<Rightarrow> Window \<Rightarrow> Window option" where
  "handleSaveClass now w =
     (if \<not> truthy_str (name (currentClass w)) \<or> \<not> truthy_str (grade (currentClass w)) \<or>
         \<not> truthy_opt_num (credits (currentClass w)) \<or> term' w = [] \<or> year w = []
      then None
      else
        let sem = encodeSemester (term' w) (year w);
            cs = (if isEditMode w \<and> truthy_opt_num (id' (currentClass w)) then
                    map (\<lambda>cls. if strict_eq (id' cls) (id' (currentClass w))
                                then (currentClass w)\<lparr> semester := Some sem \<rparr> else cls)
                        (classes w)
                  else
                    classes w @
                      [\<lparr> id' = Some (Fin (of_int now)), name = name (currentClass w),
                         grade = grade (currentClass w), credits = credits (currentClass w),
                         semester = Some sem \<rparr>])
        in Some (w\<lparr> classes := cs, currentClass := emptyClass, term' := [], year := [],
                    isModalOpen := False \<rparr>))"

text \<open>\<open>handleDeleteClass\<close>: \<open>classes.filter((cls) => cls.id !== id)\<close>.\<close>

definition handleDeleteClass :: "jsnum \<Rightarrow> Window \<Rightarrow> Window" where
  "handleDeleteClass i w =
     w\<lparr> classes := filter (\<lambda>cls. \<not> strict_eq (id' cls) (Some i)) (classes w) \<rparr>"

section \<open>The states of the window\<close>

text \<open>The options of the year selector: \<open>00\<close> to \<open>99\<close>.\<close>

definition years :: "string list" where
  "years = map (\<lambda>i. if i < 10 then ''0'' @ digits i else digits i) [0..<100]"

text \<open>
  The states that the handlers and the controls of the form can produce, from a roster
  \<open>cs\<close> read from the store at mount: the row click, the Add, Cancel and submit buttons,
  the delete button of a row, the name field and the four selectors with their fixed
  options.
\<close>

inductive reachable :: "Window \<Rightarrow> bool" where
  mount: "reachable (initialWindow\<lparr> classes := cs \<rparr>)"
| openAdd: "reachable w \<Longrightarrow> reachable (handleOpenAddModal w)"
| openEdit: "reachable w \<Longrightarrow> cls \<in> set (classes w) \<Longrightarrow> reachable (handleOpenEditModal cls w)"
| cancel: "reachable w \<Longrightarrow> reachable (handleCancel w)"
| changeName: "reachable w \<Longrightarrow>
    reachable (w\<lparr> currentClass := (currentClass w)\<lparr> name := Some v \<rparr> \<rparr>)"
| selectGrade: "reachable w \<Longrightarrow>
    g \<in> {''A'', ''A-'', ''B+'', ''B'', ''B-'', ''C+'', ''C'', ''C-'', ''D'', ''F''} \<Longrightarrow>
    reachable (w\<lparr> currentClass := (currentClass w)\<lparr> grade := Some g \<rparr> \<rparr>)"
| selectCredits: "reachable w \<Longrightarrow> n \<in> {1, 2, 3, 4, 5, 6} \<Longrightarrow>
    reachable (w\<lparr> currentClass := (currentClass w)\<lparr> credits := Some (Fin (of_nat n)) \<rparr> \<rparr>)"
| selectTerm: "reachable w \<Longrightarrow> t \<in> {''Fall'', ''Spring'', ''Summer'', ''Winter''} \<Longrightarrow>
    reachable (w\<lparr> term' := t \<rparr>)"
| selectYear: "reachable w \<Longrightarrow> y \<in> set years \<Longrightarrow> reachable (w\<lparr> year := y \<rparr>)"
| save: "reachable w \<Longrightarrow> handleSaveClass now w = Some w' \<Longrightarrow> reachable w'"
| delete: "reachable w \<Longrightarrow> reachable (handleDeleteClass i w)"

text \<open>
  What the selectors and the decoding of a stored semester can leave in \<open>term\<close> and
  \<open>year\<close>: no space in either, and no abbreviation as the term.
\<close>

definition selectable :: "Window \<Rightarrow> bool" where
  "selectable w =
     (CHR '' '' \<notin> set (term' w) \<and> term' w \<notin> {''SP'', ''FA'', ''SM'', ''WN''} \<and>
      CHR '' '' \<notin> set (year w))"

section \<open>Persistence\<close>

text \<open>
  \<open>localStorage\<close> maps keys to strings.  The string written by
  \<open>JSON.stringify(classes)\<close> is represented by the roster it serialises.
\<close>

type_synonym storage = "string \<rightharpoonup> ClassEntry list"

definition storageKey :: string where
  "storageKey = ''gpa-calculator-classes''"

text \<open>The body of the auto-save effect, \<open>useEffect(..., [classes])\<close>.\<close>

definition autoSave :: "ClassEntry list \<Rightarrow> storage \<Rightarrow> storage" where
  "autoSave cs st = (if length cs > 0 then st(storageKey \<mapsto> cs) else st)"

text \<open>\<open>handleSave\<close>, the Save button (its \<open>alert\<close> is not modelled).\<close>

definition handleSave :: "Window \<Rightarrow> storage \<Rightarrow> storage" where
  "handleSave w st = st(storageKey \<mapsto> classes w)"

text \<open>
  One user action with the render that follows it.  The auto-save effect depends on
  \<open>classes\<close> and runs after a render in which \<open>setClasses\<close> installed a new
  array; \<open>map\<close>, \<open>filter\<close> and the spread each build a new array, so it runs after
  every call of \<open>setClasses\<close>, and not after a handler that returned early.
\<close>

definition submit :: "int \<Rightarrow> Window \<times> storage \<Rightarrow> Window \<times> storage" where
  "submit now a =
     (case handleSaveClass now (fst a) of
        None \<Rightarrow> a
      | Some w \<Rightarrow> (w, autoSave (classes w) (snd a)))"

definition deleteEntry :: "jsnum \<Rightarrow> Window \<times> storage \<Rightarrow> Window \<times> storage" where
  "deleteEntry i a =
     (let w = handleDeleteClass i (fst a) in (w, autoSave (classes w) (snd a)))"

section \<open>Derived values\<close>

text \<open>The object literal \<open>gradePoints\<close>; each entry is the Number its literal denotes.\<close>

definition gradePoints :: "string \<rightharpoonup> jsnum" where
  "gradePoints = map_of
     [(''A'', round64 4), (''A-'', round64 (367 / 100)), (''B+'', round64 (333 / 100)),
      (''B'', round64 3), (''B-'', round64 (267 / 100)), (''C+'', round64 (233 / 100)),
      (''C'', round64 2), (''C-'', round64 (167 / 100)), (''D'', round64 1),
      (''F'', round64 0)]"

text \<open>
  \<open>gradePoints[cls.grade] * cls.credits\<close>.  A grade that is no key gives
  \<open>undefined\<close> (or a member inherited from \<open>Object.prototype\<close>), and the product
  is NaN.
\<close>

definition pointsFor :: "string \<Rightarrow> jsnum \<Rightarrow> jsnum" where
  "pointsFor g c = (case gradePoints g of None \<Rightarrow> NaN | Some p \<Rightarrow> jsmul p c)"

text \<open>The body of \<open>classes.forEach\<close>, on the pair \<open>(totalPoints, totalCredits)\<close>.\<close>

definition accumulate :: "jsnum \<times> jsnum \<Rightarrow> ClassEntry \<Rightarrow> jsnum \<times> jsnum" where
  "accumulate acc cls =
     (case (grade cls, credits cls) of
        (Some g, Some c) \<Rightarrow>
          if g \<noteq> [] \<and> truthy_num c
          then (jsadd (fst acc) (pointsFor g c), jsadd (snd acc) c)
          else acc
      | _ \<Rightarrow> acc)"

text \<open>The four formatting branches that end \<open>calculateGPA\<close>.\<close>

definition formatGPA :: "jsnum \<Rightarrow> string" where
  "formatGPA gpa =
     (if js_seq gpa (js_floor gpa) then js_toString gpa
      else if js_seq (jsmul gpa (Fin 10)) (js_floor (jsmul gpa (Fin 10))) then toFixed 1 gpa
      else if js_seq (jsmul gpa (Fin 100)) (js_floor (jsmul gpa (Fin 100))) then toFixed 2 gpa
      else toFixed 3 gpa)"

definition calculateGPA :: "ClassEntry list \<Rightarrow> string" where
  "calculateGPA cs =
     (if length cs = 0 then ''0''
      else
        let totals = foldl accumulate (Fin 0, Fin 0) cs
        in if js_seq (snd totals) (Fin 0) then ''0''
           else formatGPA (jsdiv (fst totals) (snd totals)))"

text \<open>\<open>cls.credits || 0\<close>.\<close>

definition creditsOrZero :: "ClassEntry \<Rightarrow> jsnum" where
  "creditsOrZero cls =
     (case credits cls of None \<Rightarrow> Fin 0 | Some c \<Rightarrow> if truthy_num c then c else Fin 0)"

definition getTotalCredits :: "ClassEntry list \<Rightarrow> jsnum" where
  "getTotalCredits cs = foldl (\<lambda>sum cls. jsadd sum (creditsOrZero cls)) (Fin 0) cs"

section \<open>The formatter the specification describes\<close>

text \<open>
  The formatter in the words of the specification (section 4.2, step 4, and section 9),
  for comparison with \<open>formatGPA\<close>: a function of the rational value, which prints it
  with the minimum number of decimal places (0 to 3) that exactly reproduces it: try
  integer, then 1 decimal, then 2 decimals, then 3 decimals, first exact match wins.
\<close>

definition shortestExact :: "rat \<Rightarrow> string" where
  "shortestExact q =
     (if of_int \<lfloor>q\<rfloor> = q then toFixed 0 (Fin q)
      else if of_int \<lfloor>q * 10\<rfloor> = q * 10 then toFixed 1 (Fin q)
      else if of_int \<lfloor>q * 100\<rfloor> = q * 100 then toFixed 2 (Fin q)
      else toFixed 3 (Fin q))"

section \<open>Auxiliary notions and sample data\<close>

text \<open>The test \<open>cls.grade && cls.credits\<close> of the loop in \<open>calculateGPA\<close>.\<close>

definition counted :: "ClassEntry \<Rightarrow> bool" where
  "counted cls = (truthy_str (grade cls) \<and> truthy_opt_num (credits cls))"

text \<open>What a counted entry adds to \<open>totalPoints\<close>.\<close>

definition pointsOf :: "ClassEntry \<Rightarrow> jsnum" where
  "pointsOf cls =
     (case (grade cls, credits cls) of (Some g, Some c) \<Rightarrow> pointsFor g c | _ \<Rightarrow> Fin 0)"

text \<open>The credit count of an entry whose credits are a natural number.\<close>

definition creditCount :: "ClassEntry \<Rightarrow> nat" where
  "creditCount cls = (case credits cls of Some (Fin q) \<Rightarrow> nat \<lfloor>q\<rfloor> | _ \<Rightarrow> 0)"

text \<open>Entries as the form produces them, and entries as an older store may hold them.\<close>

definition calcI :: ClassEntry where
  "calcI = \<lparr> id' = Some (Fin 1700000000000), name = Some ''Calc I'', grade = Some ''A'',
     credits = Some (Fin 4), semester = Some ''FA 24'' \<rparr>"

definition legacyArt :: ClassEntry where
  "legacyArt = \<lparr> id' = Some (Fin 1700000000001), name = Some ''Art'', grade = Some ''B-'',
     credits = Some (Fin 2), semester = Some ''Autumn2023'' \<rparr>"

definition zeroEntry :: ClassEntry where
  "zeroEntry = \<lparr> id' = Some (Fin 0), name = Some ''Art'', grade = Some ''B-'',
     credits = Some (Fin 2), semester = Some ''FA 24'' \<rparr>"

definition physics :: ClassEntry where
  "physics = \<lparr> id' = Some (Fin 1700000000002), name = Some ''Physics'', grade = Some ''A-'',
     credits = Some (Fin 5), semester = Some ''SP 25'' \<rparr>"

definition chemistry :: ClassEntry where
  "chemistry = \<lparr> id' = Some (Fin 1700000000003), name = Some ''Chemistry'', grade = Some ''A+'',
     credits = Some (Fin 3), semester = Some ''SP 25'' \<rparr>"

definition ungraded :: ClassEntry where
  "ungraded = \<lparr> id' = Some (Fin 1700000000004), name = Some ''Lab'', grade = Some [],
     credits = Some (Fin 3), semester = None \<rparr>"

definition noCredits :: ClassEntry where
  "noCredits = \<lparr> id' = Some (Fin 1700000000005), name = Some ''Audit'', grade = Some ''B'',
     credits = None, semester = None \<rparr>"

text \<open>The rosters of the two scenarios of the specification.\<close>

definition scenarioRoster :: "ClassEntry list" where
  "scenarioRoster =
     [\<lparr> id' = None, name = Some ''Calc I'', grade = Some ''A'', credits = Some (Fin 4),
         semester = None \<rparr>,
      \<lparr> id' = None, name = Some ''Art'', grade = Some ''B-'', credits = Some (Fin 2),
         semester = None \<rparr>]"

definition seminarRoster :: "ClassEntry list" where
  "seminarRoster =
     [\<lparr> id' = None, name = Some ''Seminar'', grade = Some ''A'', credits = Some (Fin 3),
         semester = None \<rparr>]"

text \<open>A stored roster with a grade outside the table and credits that cancel.\<close>

definition strayRoster :: "ClassEntry list" where
  "strayRoster =
     [\<lparr> id' = Some (Fin 1), name = Some ''Chemistry'', grade = Some ''A+'',
         credits = Some (Fin 1), semester = None \<rparr>,
      \<lparr> id' = Some (Fin 2), name = Some ''Refund'', grade = Some ''A'',
         credits = Some (Fin (- 1)), semester = None \<rparr>]"

text \<open>
  The window after \<open>handleOpenAddModal\<close> and the \<open>onChange\<close> setters of the form
  (\<open>setCurrentClass\<close>, \<open>setTerm\<close>, \<open>setYear\<close>), over a roster \<open>cs\<close>.
\<close>

definition artDraft :: ClassEntry where
  "artDraft = \<lparr> id' = None, name = Some ''Art'', grade = Some ''B-'',
     credits = Some (Fin 2), semester = Some [] \<rparr>"

definition filledAddForm :: "ClassEntry list \<Rightarrow> string \<Rightarrow> string \<Rightarrow> Window" where
  "filledAddForm cs t y =
     (handleOpenAddModal (initialWindow\<lparr> classes := cs \<rparr>))\<lparr> currentClass := artDraft, term' := t, year := y \<rparr>"

text \<open>The window after a click on the row of \<open>calcI\<close> and a change of its grade.\<close>

definition editForm :: Window where
  "editForm = (handleOpenEditModal calcI (initialWindow\<lparr> classes := [calcI, legacyArt] \<rparr>))
                \<lparr> currentClass := calcI\<lparr> grade := Some ''B'' \<rparr> \<rparr>"

section \<open>Incomplete drafts\<close>

text \<open>
  C7.  When the name, the grade, the credits, the term or the year of the draft is
  missing, submitting changes nothing: the window state (roster, draft, term, year,
  modal flags) and the store are returned as they were, and the handler takes its
  early return.
\<close>

theorem submit_incomplete_noop:
  "\<not> truthy_str (name (currentClass w)) \<or> \<not> truthy_str (grade (currentClass w)) \<or>
   \<not> truthy_opt_num (credits (currentClass w)) \<or> term' w = [] \<or> year w = []
   \<Longrightarrow> handleSaveClass now w = None \<and> submit now (w, st) = (w, st) \<and> \<not> isFormValid w"
  by (auto simp: handleSaveClass_def submit_def isFormValid_def)

theorem submit_incomplete_noop_witness:
  "handleSaveClass 1700000000000 (handleOpenAddModal initialWindow) = None \<and>
   submit 1700000000000 (handleOpenAddModal initialWindow, Map.empty) =
     (handleOpenAddModal initialWindow, Map.empty) \<and>
   \<not> isFormValid (handleOpenAddModal initialWindow)"
  using submit_incomplete_noop [of "handleOpenAddModal initialWindow" 1700000000000 Map.empty]
  by (simp add: handleOpenAddModal_def initialWindow_def emptyClass_def truthy_str_def)

section \<open>Semester round trip\<close>

lemma split_space_nonempty: "split_space s \<noteq> []"
  by (induction s) (auto split: list.splits)

lemma split_space_no_space:
  "CHR '' '' \<notin> set s \<Longrightarrow> split_space s = [s]"
  by (induction s) auto

lemma split_space_two:
  "CHR '' '' \<notin> set a \<Longrightarrow> CHR '' '' \<notin> set b \<Longrightarrow> split_space (a @ '' '' @ b) = [a, b]"
  by (induction a) (auto simp: split_space_no_space)

lemma getTermAbbreviation_no_space:
  "CHR '' '' \<notin> set t \<Longrightarrow> CHR '' '' \<notin> set (getTermAbbreviation t)"
  by auto

lemma full_of_abbreviation:
  "t \<notin> {''SP'', ''FA'', ''SM'', ''WN''} \<Longrightarrow> getFullTermName (getTermAbbreviation t) = t"
  by auto

lemma openEdit_fields:
  "currentClass (handleOpenEditModal cls w) = cls \<and> isEditMode (handleOpenEditModal cls w) \<and>
   isModalOpen (handleOpenEditModal cls w) \<and> classes (handleOpenEditModal cls w) = classes w"
  by (auto simp: handleOpenEditModal_def Let_def split: list.splits option.splits)

lemma openEdit_two_tokens:
  "semester cls = Some s \<Longrightarrow> s \<noteq> [] \<Longrightarrow> split_space s = [p0, p1] \<Longrightarrow>
   term' (handleOpenEditModal cls w) = getFullTermName p0 \<and> year (handleOpenEditModal cls w) = p1"
  by (simp add: handleOpenEditModal_def Let_def)

lemma openEdit_other:
  "semester cls = Some s \<Longrightarrow> s \<noteq> [] \<Longrightarrow> length (split_space s) \<noteq> 2 \<Longrightarrow>
   term' (handleOpenEditModal cls w) = term' w \<and> year (handleOpenEditModal cls w) = year w"
  by (auto simp: handleOpenEditModal_def Let_def split: list.splits)

lemma encode_Fall_24: "encodeSemester ''Fall'' ''24'' = ''FA 24''"
  by (simp add: encodeSemester_def)

lemma round_trip_core:
  assumes "t \<noteq> []" and "y \<noteq> []" and "CHR '' '' \<notin> set t" and "CHR '' '' \<notin> set y"
    and "t \<notin> {''SP'', ''FA'', ''SM'', ''WN''}"
    and "semester cls = Some (encodeSemester t y)"
  shows "encodeSemester t y = getTermAbbreviation t @ '' '' @ y \<and>
     term' (handleOpenEditModal cls w) = t \<and> year (handleOpenEditModal cls w) = y"
proof -
  have e: "encodeSemester t y = getTermAbbreviation t @ '' '' @ y"
    using assms(1,2) by (simp add: encodeSemester_def)
  have sp: "split_space (getTermAbbreviation t @ '' '' @ y) = [getTermAbbreviation t, y]"
    using assms(3,4) by (intro split_space_two getTermAbbreviation_no_space)
  have ne: "getTermAbbreviation t @ '' '' @ y \<noteq> []"
    by simp
  have s: "semester cls = Some (getTermAbbreviation t @ '' '' @ y)"
    using assms(6) e by simp
  have "term' (handleOpenEditModal cls w) = getFullTermName (getTermAbbreviation t) \<and>
      year (handleOpenEditModal cls w) = y"
    by (rule openEdit_two_tokens [OF s ne sp])
  moreover have "getFullTermName (getTermAbbreviation t) = t"
    by (rule full_of_abbreviation [OF assms(5)])
  ultimately show ?thesis
    using e by simp
qed

text \<open>
  The window never holds a term with a space or one of the abbreviations, nor a year
  with a space: \<open>setTerm\<close> and \<open>setYear\<close> are called with the empty string, with the
  four full names and \<open>00\<close> to \<open>99\<close> of the selectors, and with the decoding of a
  stored semester, whose tokens have no space and whose term is never an abbreviation.
\<close>

lemma digits_no_space: "CHR '' '' \<notin> set (digits n)"
proof (induction n rule: digits.induct)
  case (1 n)
  have d: "CHR '' '' \<noteq> ''0123456789'' ! k" if "k < 10" for k
  proof -
    from that have "k \<in> {0, 1, 2, 3, 4, 5, 6, 7, 8, 9}" by auto
    then show ?thesis by auto
  qed
  show ?case
  proof (cases "n < 10")
    case True
    then show ?thesis by (subst digits.simps) (simp add: d)
  next
    case False
    with 1 have "CHR '' '' \<notin> set (digits (n div 10))" by simp
    moreover have "CHR '' '' \<noteq> ''0123456789'' ! (n mod 10)" by (rule d) simp
    ultimately show ?thesis using False by (subst digits.simps) simp
  qed
qed

lemma handleSaveClass_resets:
  assumes "handleSaveClass now w = Some w'"
  shows "term' w' = [] \<and> year w' = []"
proof (cases "isFormValid w")
  case True
  with assms show ?thesis
    by (auto simp: handleSaveClass_def isFormValid_def Let_def)
next
  case False
  with assms show ?thesis
    by (simp add: handleSaveClass_def isFormValid_def)
qed

lemma years_no_space: "y \<in> set years \<Longrightarrow> CHR '' '' \<notin> set y"
  by (auto simp: years_def digits_no_space)

lemma split_space_tokens: "p \<in> set (split_space s) \<Longrightarrow> CHR '' '' \<notin> set p"
proof (induction s arbitrary: p)
  case Nil
  then show ?case by simp
next
  case (Cons c cs)
  show ?case
  proof (cases "c = CHR '' ''")
    case True
    with Cons show ?thesis by auto
  next
    case False
    obtain q qs where q: "split_space cs = q # qs"
      using split_space_nonempty [of cs] by (cases "split_space cs") auto
    with False Cons.prems have "p = c # q \<or> p \<in> set qs" by auto
    then show ?thesis
    proof
      assume "p = c # q"
      moreover have "CHR '' '' \<notin> set q" using Cons.IH [of q] q by simp
      ultimately show ?thesis using False by auto
    next
      assume "p \<in> set qs"
      then show ?thesis using Cons.IH [of p] q by simp
    qed
  qed
qed

lemma getFullTermName_not_abbreviation:
  "getFullTermName p \<notin> {''SP'', ''FA'', ''SM'', ''WN''}"
  by auto

lemma getFullTermName_no_space:
  "CHR '' '' \<notin> set p \<Longrightarrow> CHR '' '' \<notin> set (getFullTermName p)"
  by auto

lemma selectable_openEdit: "selectable w \<Longrightarrow> selectable (handleOpenEditModal cls w)"
proof (cases "semester cls")
  case None
  then show ?thesis by (simp add: selectable_def handleOpenEditModal_def Let_def)
next
  case (Some s)
  assume inv: "selectable w"
  show ?thesis
  proof (cases "s \<noteq> [] \<and> length (split_space s) = 2")
    case True
    then obtain p0 p1 where sp: "split_space s = [p0, p1]"
      by (auto simp: length_Suc_conv numeral_2_eq_2)
    then have "CHR '' '' \<notin> set p0" and "CHR '' '' \<notin> set p1"
      using split_space_tokens [of p0 s] split_space_tokens [of p1 s] by simp_all
    moreover have "term' (handleOpenEditModal cls w) = getFullTermName p0 \<and>
        year (handleOpenEditModal cls w) = p1"
      using Some True sp by (intro openEdit_two_tokens) simp_all
    ultimately show ?thesis
      unfolding selectable_def
      using getFullTermName_not_abbreviation [of p0] getFullTermName_no_space [of p0]
      by (simp del: getFullTermName.simps)
  next
    case False
    then consider "s = []" | "s \<noteq> []" "length (split_space s) \<noteq> 2" by blast
    then show ?thesis
    proof cases
      case 1
      then show ?thesis using Some by (simp add: selectable_def handleOpenEditModal_def Let_def)
    next
      case 2
      then have "term' (handleOpenEditModal cls w) = term' w \<and>
          year (handleOpenEditModal cls w) = year w"
        using Some by (intro openEdit_other) simp_all
      then show ?thesis using inv by (simp add: selectable_def)
    qed
  qed
qed

lemma reachable_selectable: "reachable w \<Longrightarrow> selectable w"
proof (induction rule: reachable.induct)
  case (mount cs)
  show ?case by (simp add: selectable_def initialWindow_def)
next
  case (openAdd w)
  show ?case by (simp add: selectable_def handleOpenAddModal_def)
next
  case (openEdit w cls)
  then show ?case by (simp add: selectable_openEdit)
next
  case (cancel w)
  then show ?case by (simp add: selectable_def handleCancel_def)
next
  case (changeName w v)
  then show ?case by (simp add: selectable_def)
next
  case (selectGrade w g)
  then show ?case by (simp add: selectable_def)
next
  case (selectCredits w n)
  then show ?case by (simp add: selectable_def)
next
  case (selectTerm w t)
  then show ?case by (auto simp: selectable_def)
next
  case (selectYear w y)
  then show ?case by (simp add: selectable_def years_no_space)
next
  case (save w now w')
  then show ?case
    using handleSaveClass_resets [of now w w'] by (simp add: selectable_def)
next
  case (delete w i)
  then show ?case by (simp add: selectable_def handleDeleteClass_def)
qed

lemma reachable_round_trip:
  assumes "reachable w" and "isFormValid w"
    and "semester cls = Some (encodeSemester (term' w) (year w))"
  shows "term' (handleOpenEditModal cls v) = term' w \<and>
     year (handleOpenEditModal cls v) = year w"
proof -
  have i: "selectable w"
    using assms(1) by (rule reachable_selectable)
  have "encodeSemester (term' w) (year w) = getTermAbbreviation (term' w) @ '' '' @ year w \<and>
      term' (handleOpenEditModal cls v) = term' w \<and>
      year (handleOpenEditModal cls v) = year w"
    using assms(2,3) i
    by (intro round_trip_core) (simp_all add: isFormValid_def selectable_def)
  then show ?thesis
    by simp
qed

section \<open>Opening an entry for editing\<close>

text \<open>
  C9.  \<open>calcI\<close> is opened and the dialog is cancelled, which leaves the term \<open>Fall\<close>
  and the year \<open>24\<close> in place; then an entry whose semester \<open>Autumn2023\<close> is one token is
  opened.  Its term and year are not empty: they are those of the entry opened before.
  The branch for an absent semester resets both; the branch for a semester that does
  not split in two sets neither.
\<close>

theorem openEdit_stale_term:
  "term' (handleOpenEditModal legacyArt (handleCancel (handleOpenEditModal calcI initialWindow))) = ''Fall'' \<and>
   year (handleOpenEditModal legacyArt (handleCancel (handleOpenEditModal calcI initialWindow))) = ''24'' \<and>
   split_space ''Autumn2023'' = [''Autumn2023'']"
  by (simp add: handleOpenEditModal_def handleCancel_def initialWindow_def calcI_def legacyArt_def
      truthy_str_def Let_def)

section \<open>Adding and editing\<close>

lemma isFormValid_iff:
  "isFormValid w \<longleftrightarrow>
   \<not> (\<not> truthy_str (name (currentClass w)) \<or> \<not> truthy_str (grade (currentClass w)) \<or>
      \<not> truthy_opt_num (credits (currentClass w)) \<or> term' w = [] \<or> year w = [])"
  by (auto simp: isFormValid_def)

lemma strict_eq_truthy:
  "truthy_opt_num b \<Longrightarrow> strict_eq a b \<longleftrightarrow> a = b"
  by (auto simp: strict_eq_def truthy_opt_num_def)

lemma handleSaveClass_add:
  assumes "\<not> isEditMode w \<or> \<not> truthy_opt_num (id' (currentClass w))" and "isFormValid w"
  shows "handleSaveClass now w =
     Some (w\<lparr> classes := classes w @
                [\<lparr> id' = Some (Fin (of_int now)), name = name (currentClass w),
                   grade = grade (currentClass w), credits = credits (currentClass w),
                   semester = Some (encodeSemester (term' w) (year w)) \<rparr>],
              currentClass := emptyClass, term' := [], year := [], isModalOpen := False \<rparr>)"
  using assms by (auto simp: handleSaveClass_def isFormValid_def Let_def)

lemma handleSaveClass_edit:
  assumes "isEditMode w" and "truthy_opt_num (id' (currentClass w))" and "isFormValid w"
  shows "handleSaveClass now w =
     Some (w\<lparr> classes :=
                map (\<lambda>cls. if id' cls = id' (currentClass w)
                            then (currentClass w)\<lparr> semester := Some (encodeSemester (term' w) (year w)) \<rparr>
                            else cls) (classes w),
              currentClass := emptyClass, term' := [], year := [], isModalOpen := False \<rparr>)"
  using assms by (auto simp: handleSaveClass_def isFormValid_def Let_def strict_eq_truthy)

lemma filledAddForm_simps:
  "isEditMode (filledAddForm cs t y) = False"
  "classes (filledAddForm cs t y) = cs"
  "currentClass (filledAddForm cs t y) = artDraft"
  "term' (filledAddForm cs t y) = t"
  "year (filledAddForm cs t y) = y"
  by (simp_all add: filledAddForm_def handleOpenAddModal_def)

lemma filledAddForm_valid: "t \<noteq> [] \<Longrightarrow> y \<noteq> [] \<Longrightarrow> isFormValid (filledAddForm cs t y)"
  by (simp add: isFormValid_def filledAddForm_simps artDraft_def truthy_str_def truthy_opt_num_def)

lemma editForm_simps:
  "isEditMode editForm = True"
  "classes editForm = [calcI, legacyArt]"
  "currentClass editForm = calcI\<lparr> grade := Some ''B'' \<rparr>"
  "term' editForm = ''Fall''"
  "year editForm = ''24''"
  by (simp_all add: editForm_def handleOpenEditModal_def Let_def calcI_def truthy_str_def)

text \<open>
  C5, as stated, fails: the new id is the value of \<open>Date.now()\<close>, and nothing compares
  it with the ids in the roster.  With a roster that holds an entry of id
  \<open>1700000000000\<close> and a clock that reads \<open>1700000000000\<close>, the entry added has the id
  of the entry that is there.
\<close>

theorem add_id_collision:
  "map id' (classes (the (handleSaveClass 1700000000000 (filledAddForm [calcI] ''Fall'' ''24'')))) =
     [Some (Fin 1700000000000), Some (Fin 1700000000000)] \<and>
   map id' (classes (filledAddForm [calcI] ''Fall'' ''24'')) = [Some (Fin 1700000000000)] \<and>
   \<not> isEditMode (filledAddForm [calcI] ''Fall'' ''24'') \<and> isFormValid (filledAddForm [calcI] ''Fall'' ''24'')"
  by (simp add: handleSaveClass_def filledAddForm_def handleOpenAddModal_def initialWindow_def
      artDraft_def calcI_def isFormValid_def truthy_str_def truthy_opt_num_def Let_def)

text \<open>
  C5, amended.  In Adding mode a valid draft appends exactly one entry at the end, with
  the fields of the draft, the encoded semester and the clock reading as its id; the
  entries before it and their order are unchanged.  The new id differs from every id in
  the roster whenever no entry carries the clock reading, and then ids that were
  pairwise distinct stay so.
\<close>

theorem add_appends_entry:
  assumes "\<not> isEditMode w" and "isFormValid w"
  shows "\<exists>w' e. handleSaveClass now w = Some w' \<and> classes w' = classes w @ [e] \<and>
     id' e = Some (Fin (of_int now)) \<and> name e = name (currentClass w) \<and>
     grade e = grade (currentClass w) \<and> credits e = credits (currentClass w) \<and>
     semester e = Some (encodeSemester (term' w) (year w)) \<and>
     take (length (classes w)) (classes w') = classes w \<and>
     (Some (Fin (of_int now)) \<notin> set (map id' (classes w)) \<longrightarrow>
        id' e \<notin> set (map id' (classes w)) \<and>
        (distinct (map id' (classes w)) \<longrightarrow> distinct (map id' (classes w'))))"
  using handleSaveClass_add [of w now] assms by simp

text \<open>C5, amended, at a roster with one entry and a later clock reading.\<close>

theorem add_appends_entry_witness:
  "\<exists>w' e. handleSaveClass 1700000000005 (filledAddForm [calcI] ''Fall'' ''24'') = Some w' \<and>
     classes w' = [calcI, e] \<and> id' e = Some (Fin 1700000000005) \<and>
     semester e = Some ''FA 24'' \<and> id' e \<noteq> id' calcI \<and> distinct (map id' (classes w'))"
proof -
  have v: "isFormValid (filledAddForm [calcI] ''Fall'' ''24'')"
    by (rule filledAddForm_valid) simp_all
  have m: "\<not> isEditMode (filledAddForm [calcI] ''Fall'' ''24'')"
    by (simp add: filledAddForm_simps)
  from add_appends_entry [OF m v, of 1700000000005]
  obtain w' e where
    s: "handleSaveClass 1700000000005 (filledAddForm [calcI] ''Fall'' ''24'') = Some w'" and
    c: "classes w' = classes (filledAddForm [calcI] ''Fall'' ''24'') @ [e]" and
    i: "id' e = Some (Fin (of_int 1700000000005))" and
    sem: "semester e = Some (encodeSemester (term' (filledAddForm [calcI] ''Fall'' ''24''))
                                            (year (filledAddForm [calcI] ''Fall'' ''24'')))"
    by blast
  have "classes w' = [calcI, e]"
    using c by (simp add: filledAddForm_simps)
  moreover have "id' e = Some (Fin 1700000000005)"
    using i by simp
  moreover have "semester e = Some ''FA 24''"
    using sem by (simp add: filledAddForm_simps encode_Fall_24)
  moreover have "id' calcI = Some (Fin 1700000000000)"
    by (simp add: calcI_def)
  ultimately show ?thesis
    using s by auto
qed

text \<open>
  C6, as stated, fails: the edit branch is taken under \<open>isEditMode && currentClass.id\<close>,
  and the id \<open>0\<close> is falsy.  Editing the entry of id \<open>0\<close> appends a second entry instead
  of replacing the first.
\<close>

theorem edit_zero_id_appends:
  "isEditMode (handleOpenEditModal zeroEntry (initialWindow\<lparr> classes := [zeroEntry] \<rparr>)) \<and>
   isFormValid (handleOpenEditModal zeroEntry (initialWindow\<lparr> classes := [zeroEntry] \<rparr>)) \<and>
   id' (currentClass (handleOpenEditModal zeroEntry (initialWindow\<lparr> classes := [zeroEntry] \<rparr>))) = id' zeroEntry \<and>
   length (classes (the (handleSaveClass 1700000000000
      (handleOpenEditModal zeroEntry (initialWindow\<lparr> classes := [zeroEntry] \<rparr>))))) = 2"
  by (simp add: handleSaveClass_def handleOpenEditModal_def initialWindow_def zeroEntry_def
      isFormValid_def truthy_str_def truthy_opt_num_def Let_def)

text \<open>
  C6, amended.  In Editing mode a valid draft whose id is truthy (not \<open>0\<close>, not NaN, not
  absent) replaces every entry that carries this id by the draft with the encoded
  semester; the length, the order and the ids of the roster are unchanged, and so is
  every entry with another id.  With pairwise distinct ids this is one entry.
\<close>

theorem edit_replaces_entry:
  assumes "isEditMode w" and "isFormValid w" and "truthy_opt_num (id' (currentClass w))"
  shows "\<exists>w'. handleSaveClass now w = Some w' \<and>
     length (classes w') = length (classes w) \<and>
     map id' (classes w') = map id' (classes w) \<and>
     (\<forall>i < length (classes w).
        classes w' ! i =
          (if id' (classes w ! i) = id' (currentClass w)
           then (currentClass w)\<lparr> semester := Some (encodeSemester (term' w) (year w)) \<rparr>
           else classes w ! i))"
  using handleSaveClass_edit [OF assms(1) assms(3) assms(2), of now]
  by (auto simp: list_eq_iff_nth_eq)

text \<open>C6, amended, at a roster of two entries: the first is replaced, the second kept.\<close>

theorem edit_replaces_entry_witness:
  "\<exists>w'. handleSaveClass 1700000000009 editForm = Some w' \<and>
     classes w' = [calcI\<lparr> grade := Some ''B'' \<rparr>, legacyArt]"
proof -
  have m: "isEditMode editForm"
    by (simp add: editForm_simps)
  have v: "isFormValid editForm"
    by (simp add: isFormValid_def editForm_simps calcI_def truthy_str_def truthy_opt_num_def)
  have t: "truthy_opt_num (id' (currentClass editForm))"
    by (simp add: editForm_simps calcI_def truthy_opt_num_def)
  from edit_replaces_entry [OF m v t, of 1700000000009]
  obtain w' where
    s: "handleSaveClass 1700000000009 editForm = Some w'" and
    l: "length (classes w') = length (classes editForm)" and
    n: "\<forall>i < length (classes editForm).
          classes w' ! i =
            (if id' (classes editForm ! i) = id' (currentClass editForm)
             then (currentClass editForm)\<lparr> semester := Some (encodeSemester (term' editForm) (year editForm)) \<rparr>
             else classes editForm ! i)"
    by blast
  have l2: "length (classes w') = 2"
    using l by (simp add: editForm_simps)
  have "classes w' ! 0 = calcI\<lparr> grade := Some ''B'' \<rparr>"
    using n [rule_format, of 0] by (simp add: editForm_simps encode_Fall_24 calcI_def)
  moreover have "classes w' ! 1 = legacyArt"
    using n [rule_format, of 1] by (simp add: editForm_simps calcI_def legacyArt_def)
  ultimately have "classes w' = [calcI\<lparr> grade := Some ''B'' \<rparr>, legacyArt]"
    using l2 by (simp add: list_eq_iff_nth_eq less_Suc_eq numeral_2_eq_2)
  then show ?thesis
    using s by simp
qed

section \<open>Round trip of the semester through submit and edit-open\<close>

lemma year_24: "''24'' \<in> set years"
  by code_simp

lemma filledAddForm_reachable:
  assumes "t \<in> {''Fall'', ''Spring'', ''Summer'', ''Winter''}" and "y \<in> set years"
  shows "reachable (filledAddForm cs t y)"
proof -
  let ?w1 = "handleOpenAddModal (initialWindow\<lparr> classes := cs \<rparr>)"
  let ?w2 = "?w1\<lparr> currentClass := (currentClass ?w1)\<lparr> name := Some ''Art'' \<rparr> \<rparr>"
  let ?w3 = "?w2\<lparr> currentClass := (currentClass ?w2)\<lparr> grade := Some ''B-'' \<rparr> \<rparr>"
  let ?w4 = "?w3\<lparr> currentClass := (currentClass ?w3)\<lparr> credits := Some (Fin (of_nat 2)) \<rparr> \<rparr>"
  have "reachable ?w1"
    by (intro reachable.openAdd reachable.mount)
  then have "reachable ?w2"
    by (rule reachable.changeName)
  then have "reachable ?w3"
    by (rule reachable.selectGrade) simp
  then have "reachable ?w4"
    by (rule reachable.selectCredits) simp
  then have "reachable (?w4\<lparr> term' := t \<rparr>)"
    using assms(1) by (rule reachable.selectTerm)
  then have "reachable (?w4\<lparr> term' := t \<rparr>\<lparr> year := y \<rparr>)"
    using assms(2) by (rule reachable.selectYear)
  moreover have "?w4\<lparr> term' := t \<rparr>\<lparr> year := y \<rparr> = filledAddForm cs t y"
    by (simp add: filledAddForm_def handleOpenAddModal_def emptyClass_def artDraft_def)
  ultimately show ?thesis
    by simp
qed

text \<open>
  C4.  In every state that the window can reach and in which the submit-time check
  accepts the draft, whatever the term and the year are (a selected full name, or a
  term decoded from a stored semester and passed through unabbreviated): submit stores
  the semester encoded from the term and the year in the entry it appends (in Adding
  mode) and in every entry it replaces (in Editing mode), and opening any entry that
  carries this semester for editing gives back the term and the year.
\<close>

theorem semester_round_trip:
  assumes "reachable w" and "isFormValid w"
  shows "\<exists>w'. handleSaveClass now w = Some w' \<and>
     (\<forall>cls \<in> set (classes w').
        cls \<in> set (classes w) \<or> semester cls = Some (encodeSemester (term' w) (year w))) \<and>
     (\<not> isEditMode w \<longrightarrow>
        semester (last (classes w')) = Some (encodeSemester (term' w) (year w))) \<and>
     (\<forall>cls v. semester cls = Some (encodeSemester (term' w) (year w)) \<longrightarrow>
        term' (handleOpenEditModal cls v) = term' w \<and>
        year (handleOpenEditModal cls v) = year w)"
proof -
  have d: "\<forall>cls v. semester cls = Some (encodeSemester (term' w) (year w)) \<longrightarrow>
      term' (handleOpenEditModal cls v) = term' w \<and> year (handleOpenEditModal cls v) = year w"
    using reachable_round_trip [OF assms] by blast
  show ?thesis
  proof (cases "isEditMode w \<and> truthy_opt_num (id' (currentClass w))")
    case True
    then have "handleSaveClass now w =
        Some (w\<lparr> classes :=
                   map (\<lambda>cls. if id' cls = id' (currentClass w)
                               then (currentClass w)\<lparr> semester := Some (encodeSemester (term' w) (year w)) \<rparr>
                               else cls) (classes w),
                 currentClass := emptyClass, term' := [], year := [], isModalOpen := False \<rparr>)"
      using assms(2) by (intro handleSaveClass_edit) simp_all
    with True d show ?thesis
      by auto
  next
    case False
    then have "handleSaveClass now w =
        Some (w\<lparr> classes := classes w @
                   [\<lparr> id' = Some (Fin (of_int now)), name = name (currentClass w),
                      grade = grade (currentClass w), credits = credits (currentClass w),
                      semester = Some (encodeSemester (term' w) (year w)) \<rparr>],
                 currentClass := emptyClass, term' := [], year := [], isModalOpen := False \<rparr>)"
      using assms(2) by (intro handleSaveClass_add) simp_all
    with d show ?thesis
      by auto
  qed
qed

text \<open>
  C4 at the instance of the specification: the form filled with the term \<open>Fall\<close> and
  the year \<open>24\<close> stores \<open>FA 24\<close>, and opening the stored entry gives \<open>Fall\<close> and \<open>24\<close>.
\<close>

theorem semester_round_trip_witness:
  "\<exists>w'. handleSaveClass 1700000000005 (filledAddForm [calcI] ''Fall'' ''24'') = Some w' \<and>
     semester (last (classes w')) = Some ''FA 24'' \<and>
     term' (handleOpenEditModal (last (classes w')) initialWindow) = ''Fall'' \<and>
     year (handleOpenEditModal (last (classes w')) initialWindow) = ''24''"
proof -
  have r: "reachable (filledAddForm [calcI] ''Fall'' ''24'')"
    by (rule filledAddForm_reachable) (simp_all add: year_24)
  have v: "isFormValid (filledAddForm [calcI] ''Fall'' ''24'')"
    by (rule filledAddForm_valid) simp_all
  from semester_round_trip [OF r v, of 1700000000005]
  obtain w' where
    s: "handleSaveClass 1700000000005 (filledAddForm [calcI] ''Fall'' ''24'') = Some w'" and
    l: "\<not> isEditMode (filledAddForm [calcI] ''Fall'' ''24'') \<longrightarrow>
        semester (last (classes w')) =
          Some (encodeSemester (term' (filledAddForm [calcI] ''Fall'' ''24''))
                               (year (filledAddForm [calcI] ''Fall'' ''24'')))" and
    d: "\<forall>cls v. semester cls =
          Some (encodeSemester (term' (filledAddForm [calcI] ''Fall'' ''24''))
                               (year (filledAddForm [calcI] ''Fall'' ''24''))) \<longrightarrow>
        term' (handleOpenEditModal cls v) = term' (filledAddForm [calcI] ''Fall'' ''24'') \<and>
        year (handleOpenEditModal cls v) = year (filledAddForm [calcI] ''Fall'' ''24'')"
    by blast
  have sem: "semester (last (classes w')) = Some ''FA 24''"
    using l by (simp add: filledAddForm_simps encode_Fall_24)
  have "term' (handleOpenEditModal (last (classes w')) initialWindow) = ''Fall'' \<and>
      year (handleOpenEditModal (last (classes w')) initialWindow) = ''24''"
    using d [rule_format, of "last (classes w')" initialWindow] sem
    by (simp add: filledAddForm_simps encode_Fall_24)
  with s sem show ?thesis
    by blast
qed

section \<open>Automatic persistence\<close>

lemma deleteEntry_persists:
  "classes (fst (deleteEntry i a)) \<noteq> [] \<Longrightarrow>
   snd (deleteEntry i a) storageKey = Some (classes (fst (deleteEntry i a)))"
  by (simp add: deleteEntry_def autoSave_def Let_def)

lemma submit_persists:
  "handleSaveClass now (fst a) = Some w \<Longrightarrow> classes w \<noteq> [] \<Longrightarrow>
   submit now a = (w, (snd a)(storageKey \<mapsto> classes w))"
  by (simp add: submit_def autoSave_def)

text \<open>
  C8.  The effect is commented \<open>Auto-save whenever classes change\<close> and writes under
  \<open>if (classes.length > 0)\<close>.  An entry is added to an empty roster and stored; it is
  deleted again; the roster is empty and the store still holds the entry, which a
  reload brings back.  Deleting an id that no entry has from an empty roster writes
  nothing either.
\<close>

theorem delete_last_not_persisted:
  "fst (deleteEntry (Fin 1700000000000)
      (submit 1700000000000 (filledAddForm [] ''Fall'' ''24'', Map.empty))) =
     initialWindow \<and>
   snd (deleteEntry (Fin 1700000000000)
      (submit 1700000000000 (filledAddForm [] ''Fall'' ''24'', Map.empty))) storageKey =
     Some [\<lparr> id' = Some (Fin 1700000000000), name = Some ''Art'', grade = Some ''B-'',
             credits = Some (Fin 2), semester = Some ''FA 24'' \<rparr>] \<and>
   snd (deleteEntry (Fin 7) (initialWindow, Map.empty)) storageKey = None"
  by (simp add: deleteEntry_def submit_def handleSaveClass_def handleDeleteClass_def autoSave_def
      filledAddForm_def handleOpenAddModal_def initialWindow_def artDraft_def emptyClass_def
      truthy_str_def truthy_opt_num_def strict_eq_def encodeSemester_def Let_def)

section \<open>Total credits\<close>

lemma round_half_even_of_int: "round_half_even (of_int m) = m"
  by (simp add: round_half_even_def)

lemma round64_of_int:
  assumes "0 \<le> n" and "n < 2 ^ 53"
  shows "round64 (of_int n) = Fin (of_int n)"
proof (cases "n = 0")
  case True
  then show ?thesis by (simp add: round64_def)
next
  case False
  with assms have pos: "0 < n" by simp
  define e where "e = bitlen n - 1"
  define k where "k = nat (52 - e)"
  have e0: "0 \<le> e"
    using pos by (simp add: e_def bitlen_alt_def)
  have "bitlen n \<le> 53"
    using assms(2) by (simp add: bitlen_le_iff_power)
  then have e52: "e \<le> 52" by (simp add: e_def)
  have il: "ilog2 (of_int n) = e"
    using pos by (simp add: ilog2_def e_def)
  have ulp: "(2::rat) powi (e - 52) = 1 / 2 ^ k"
    using e52 by (simp add: power_int_def k_def inverse_eq_divide power_one_over)
  have q: "(of_int n :: rat) / (1 / 2 ^ k) = of_int (n * 2 ^ k)"
    by simp
  have r: "of_int (round_half_even (of_int n / (1 / 2 ^ k))) * (1 / 2 ^ k) = (of_int n :: rat)"
    unfolding q round_half_even_of_int by simp
  have big: "\<not> (2::int) ^ 1024 \<le> n"
  proof -
    have "(2::int) ^ 53 \<le> 2 ^ 1024" by (rule power_increasing) simp_all
    with assms(2) show ?thesis by linarith
  qed
  have m: "max e (- 1022) = e" using e0 by simp
  have a: "\<bar>of_int n :: rat\<bar> = of_int n" using pos by simp
  show ?thesis
    unfolding round64_def Let_def a il m ulp r
    using pos big by simp
qed

lemma jsadd_nat: 
  "a + b < 2 ^ 53 \<Longrightarrow> jsadd (Fin (of_nat a)) (Fin (of_nat b)) = Fin (of_nat (a + b))"
  using round64_of_int [of "int a + int b"]
  by (simp add: of_nat_less_numeral_power_cancel_iff flip: of_nat_add)

lemma foldl_jsadd_nat:
  "a + sum_list (map k cs) < 2 ^ 53 \<Longrightarrow> \<forall>c \<in> set cs. f c = Fin (of_nat (k c)) \<Longrightarrow>
   foldl jsadd (Fin (of_nat a)) (map f cs) = Fin (of_nat (a + sum_list (map k cs)))"
proof (induction cs arbitrary: a)
  case Nil
  show ?case by simp
next
  case (Cons c cs)
  have "a + k c < 2 ^ 53" using Cons.prems(1) by simp
  then have "jsadd (Fin (of_nat a)) (Fin (of_nat (k c))) = Fin (of_nat (a + k c))"
    by (rule jsadd_nat)
  moreover have "f c = Fin (of_nat (k c))" using Cons.prems(2) by simp
  ultimately have "jsadd (Fin (of_nat a)) (f c) = Fin (of_nat (a + k c))"
    by (simp only:)
  moreover have "foldl jsadd (Fin (of_nat (a + k c))) (map f cs) =
      Fin (of_nat (a + k c + sum_list (map k cs)))"
    using Cons.prems by (intro Cons.IH) (simp_all add: add.assoc)
  ultimately show ?case by (simp add: add.assoc)
qed

lemma getTotalCredits_map: "getTotalCredits cs = foldl jsadd (Fin 0) (map creditsOrZero cs)"
  by (simp add: getTotalCredits_def foldl_map)

text \<open>
  C3.  The total is the sum, in the order of the roster, of the credits of every entry,
  an absent (or falsy) credits field counting 0; it does not depend on any grade, so an
  entry that the GPA leaves out is counted; and for credits that are natural numbers
  with a sum below \<open>2 ^ 53\<close> it is exactly that sum.
\<close>

theorem total_credits_unfiltered:
  "getTotalCredits cs = foldl jsadd (Fin 0) (map creditsOrZero cs) \<and>
   getTotalCredits (map (\<lambda>c. c\<lparr> grade := g c \<rparr>) cs) = getTotalCredits cs \<and>
   ((\<forall>c \<in> set cs. credits c = None \<and> k c = 0 \<or> credits c = Some (Fin (of_nat (k c)))) \<and>
    sum_list (map k cs) < 2 ^ 53 \<longrightarrow>
    getTotalCredits cs = Fin (of_nat (sum_list (map k cs))))"
proof (intro conjI impI)
  show "getTotalCredits cs = foldl jsadd (Fin 0) (map creditsOrZero cs)"
    by (rule getTotalCredits_map)
  have "creditsOrZero (c\<lparr> grade := g c \<rparr>) = creditsOrZero c" for c
    by (simp add: creditsOrZero_def)
  then show "getTotalCredits (map (\<lambda>c. c\<lparr> grade := g c \<rparr>) cs) = getTotalCredits cs"
    by (simp add: getTotalCredits_map comp_def)
  assume h: "(\<forall>c \<in> set cs. credits c = None \<and> k c = 0 \<or> credits c = Some (Fin (of_nat (k c)))) \<and>
    sum_list (map k cs) < 2 ^ 53"
  then have "\<forall>c \<in> set cs. creditsOrZero c = Fin (of_nat (k c))"
    by (auto simp: creditsOrZero_def)
  with h have "foldl jsadd (Fin (of_nat 0)) (map creditsOrZero cs) =
      Fin (of_nat (0 + sum_list (map k cs)))"
    by (intro foldl_jsadd_nat) simp_all
  then show "getTotalCredits cs = Fin (of_nat (sum_list (map k cs)))"
    by (simp add: getTotalCredits_map)
qed

text \<open>
  C3 at a roster with a graded entry of 4 credits, an entry of 3 credits without a grade,
  and an entry without credits.
\<close>

theorem total_credits_unfiltered_witness:
  "getTotalCredits [calcI, ungraded, noCredits] = Fin 7 \<and> \<not> counted ungraded"
proof -
  have h: "(\<forall>c \<in> set [calcI, ungraded, noCredits].
        credits c = None \<and> creditCount c = 0 \<or> credits c = Some (Fin (of_nat (creditCount c)))) \<and>
      sum_list (map creditCount [calcI, ungraded, noCredits]) < 2 ^ 53"
    by (simp add: calcI_def ungraded_def noCredits_def creditCount_def)
  have "getTotalCredits [calcI, ungraded, noCredits] =
      Fin (of_nat (sum_list (map creditCount [calcI, ungraded, noCredits])))"
    using total_credits_unfiltered [of "[calcI, ungraded, noCredits]" grade creditCount] h
    by blast
  then show ?thesis
    by (simp add: calcI_def ungraded_def noCredits_def creditCount_def counted_def truthy_str_def)
qed

section \<open>The grade-point average\<close>

lemma accumulate_skip: "\<not> counted cls \<Longrightarrow> accumulate acc cls = acc"
  by (auto simp: accumulate_def counted_def truthy_str_def truthy_opt_num_def split: option.splits)

lemma accumulate_counted:
  "counted cls \<Longrightarrow> snd (accumulate acc cls) = jsadd (snd acc) (creditsOrZero cls)"
  by (auto simp: accumulate_def counted_def creditsOrZero_def truthy_str_def truthy_opt_num_def
      split: option.splits)

lemma totalCredits_filter:
  "snd (foldl accumulate acc cs) =
   foldl jsadd (snd acc) (map creditsOrZero (filter counted cs))"
proof (induction cs arbitrary: acc)
  case Nil
  show ?case by simp
next
  case (Cons c cs)
  show ?case
  proof (cases "counted c")
    case True
    then show ?thesis by (simp add: Cons.IH accumulate_counted)
  next
    case False
    then show ?thesis by (simp add: Cons.IH accumulate_skip)
  qed
qed

lemma accumulate_counted_points:
  "counted cls \<Longrightarrow> fst (accumulate acc cls) = jsadd (fst acc) (pointsOf cls)"
  by (auto simp: accumulate_def counted_def pointsOf_def truthy_str_def truthy_opt_num_def
      split: option.splits)

lemma totalPoints_filter:
  "fst (foldl accumulate acc cs) =
   foldl jsadd (fst acc) (map pointsOf (filter counted cs))"
proof (induction cs arbitrary: acc)
  case Nil
  show ?case by simp
next
  case (Cons c cs)
  show ?case
  proof (cases "counted c")
    case True
    then show ?thesis by (simp add: Cons.IH accumulate_counted_points)
  next
    case False
    then show ?thesis by (simp add: Cons.IH accumulate_skip)
  qed
qed

text \<open>
  The parts of the algorithm that do hold for every roster: \<open>0\<close> for the empty roster,
  the two sums over exactly the counted entries, \<open>0\<close> for a credit sum of zero, and the
  quotient handed to the formatter.
\<close>

lemma calculateGPA_sums:
  "calculateGPA cs =
     (if cs = [] then ''0''
      else if js_seq (foldl jsadd (Fin 0) (map creditsOrZero (filter counted cs))) (Fin 0)
      then ''0''
      else formatGPA (jsdiv (foldl jsadd (Fin 0) (map pointsOf (filter counted cs)))
                            (foldl jsadd (Fin 0) (map creditsOrZero (filter counted cs)))))"
  by (simp add: calculateGPA_def Let_def totalPoints_filter totalCredits_filter)

lemma jsadd_NaN_right: "jsadd x NaN = NaN"
  by (cases x) simp_all

lemma accumulate_fst_NaN: "fst acc = NaN \<Longrightarrow> fst (accumulate acc c) = NaN"
  by (auto simp: accumulate_def split: option.splits)

lemma foldl_fst_NaN: "fst acc = NaN \<Longrightarrow> fst (foldl accumulate acc cs) = NaN"
  by (induction cs arbitrary: acc) (simp_all add: accumulate_fst_NaN)

lemma gradePoints_outside:
  "g \<notin> {''A'', ''A-'', ''B+'', ''B'', ''B-'', ''C+'', ''C'', ''C-'', ''D'', ''F''} \<Longrightarrow>
   gradePoints g = None"
  by (simp add: gradePoints_def)

lemma totalPoints_NaN:
  assumes "c \<in> set cs" and "grade c = Some g" and "g \<noteq> []" and "gradePoints g = None"
    and "credits c = Some x" and "truthy_num x"
  shows "fst (foldl accumulate acc cs) = NaN"
  using assms(1)
proof (induction cs arbitrary: acc)
  case Nil
  then show ?case by simp
next
  case (Cons d ds)
  show ?case
  proof (cases "d = c")
    case True
    have "fst (accumulate acc c) = NaN"
      using assms(2-6) by (simp add: accumulate_def pointsFor_def jsadd_NaN_right)
    then show ?thesis using True by (simp add: foldl_fst_NaN)
  next
    case False
    with Cons.prems have "c \<in> set ds" by simp
    then show ?thesis by (simp add: Cons.IH)
  qed
qed

lemma formatGPA_NaN: "formatGPA NaN = ''NaN''"
  by (simp add: formatGPA_def js_seq_def toFixed_def js_toString_def)

lemma calculateGPA_empty: "calculateGPA [] = ''0''"
  by (simp add: calculateGPA_def)

lemma scenario_gpa: "calculateGPA scenarioRoster = ''3.557''"
  by code_simp

lemma scenario_credits: "getTotalCredits scenarioRoster = Fin 6"
  by code_simp

lemma seminar_gpa: "calculateGPA seminarRoster = ''4''"
  by code_simp

lemma physics_gpa: "calculateGPA [physics] = ''3.670''"
  by code_simp

lemma physics_exact: "shortestExact (367 / 100 * 5 / 5) = ''3.67''"
  by code_simp

lemma stray_gpa: "calculateGPA strayRoster = ''0''"
  by code_simp

text \<open>
  C1.  One class with the grade \<open>A-\<close> and 5 credits: the average is
  \<open>3.67 \<times> 5 / 5 = 3.67\<close>, which two decimals reproduce exactly, and the formatter of
  the specification prints \<open>3.67\<close>.  In binary64 the product and the quotient round to
  \<open>3.6700000000000004\<close>, its hundredfold is no integer, and \<open>calculateGPA\<close> prints
  \<open>3.670\<close>.
\<close>

theorem gpa_three_decimals_unneeded:
  "calculateGPA [physics] = ''3.670'' \<and> shortestExact (367 / 100 * 5 / 5) = ''3.67''"
  using physics_gpa physics_exact by simp

text \<open>
  C2, as stated, fails: on the roster of Calc I (A, 4 credits) and Art (B-, 2 credits)
  the result is not \<open>3.223\<close>.
\<close>

theorem scenario_gpa_not_3223: "calculateGPA scenarioRoster \<noteq> ''3.223''"
  using scenario_gpa by simp

text \<open>
  C2, amended.  On that roster \<open>calculateGPA\<close> returns \<open>3.557\<close>
  (\<open>(4.00 \<times> 4 + 2.67 \<times> 2) / 6 = 3.5566...\<close>) and \<open>getTotalCredits\<close> returns 6; on the roster
  of Seminar (A, 3 credits) \<open>calculateGPA\<close> returns \<open>4\<close>.
\<close>

theorem scenario_values:
  "calculateGPA scenarioRoster = ''3.557'' \<and> getTotalCredits scenarioRoster = Fin 6 \<and>
   calculateGPA seminarRoster = ''4''"
  using scenario_gpa scenario_credits seminar_gpa by simp

text \<open>
  C10, as stated, fails: a roster with the grade \<open>A+\<close> on 1 credit and a second entry of
  \<open>-1\<close> credit has the credit total 0, and the result is \<open>0\<close>, not \<open>NaN\<close>.
\<close>

theorem unknown_grade_zero_total:
  "calculateGPA strayRoster = ''0'' \<and> calculateGPA strayRoster \<noteq> ''NaN''"
  using stray_gpa by simp

text \<open>
  C10, amended.  For a roster with an entry whose grade is a non-empty string outside
  the ten grades and whose credits are truthy, \<open>calculateGPA\<close> returns \<open>0\<close> when the
  credits of the counted entries sum to 0 and \<open>NaN\<close> otherwise; it returns \<open>NaN\<close>
  whenever the credits of the counted entries are natural numbers with a sum below
  \<open>2 ^ 53\<close>.
\<close>

theorem unknown_grade_gives_NaN:
  assumes "c \<in> set cs" and "grade c = Some g" and "g \<noteq> []"
    and "g \<notin> {''A'', ''A-'', ''B+'', ''B'', ''B-'', ''C+'', ''C'', ''C-'', ''D'', ''F''}"
    and "credits c = Some x" and "truthy_num x"
  shows "calculateGPA cs =
      (if js_seq (foldl jsadd (Fin 0) (map creditsOrZero (filter counted cs))) (Fin 0)
       then ''0'' else ''NaN'') \<and>
     ((\<forall>d \<in> set cs. counted d \<longrightarrow> credits d = Some (Fin (of_nat (k d)))) \<and>
      sum_list (map k (filter counted cs)) < 2 ^ 53 \<longrightarrow> calculateGPA cs = ''NaN'')"
proof -
  have ne: "length cs \<noteq> 0" using assms(1) by auto
  have p: "fst (foldl accumulate (Fin 0, Fin 0) cs) = NaN"
    using assms by (intro totalPoints_NaN [of c cs g x]) (simp_all add: gradePoints_outside)
  have t: "snd (foldl accumulate (Fin 0, Fin 0) cs) =
      foldl jsadd (Fin 0) (map creditsOrZero (filter counted cs))"
    by (simp add: totalCredits_filter)
  have main: "calculateGPA cs =
      (if js_seq (foldl jsadd (Fin 0) (map creditsOrZero (filter counted cs))) (Fin 0)
       then ''0'' else ''NaN'')"
    using ne by (simp add: calculateGPA_def Let_def p formatGPA_NaN flip: t)
  have pos: "calculateGPA cs = ''NaN''"
    if h: "(\<forall>d \<in> set cs. counted d \<longrightarrow> credits d = Some (Fin (of_nat (k d)))) \<and>
      sum_list (map k (filter counted cs)) < 2 ^ 53"
  proof -
    have cc: "counted c"
      using assms by (simp add: counted_def truthy_str_def truthy_opt_num_def)
    have "\<forall>d \<in> set (filter counted cs). creditsOrZero d = Fin (of_nat (k d))"
      using h by (auto simp: creditsOrZero_def)
    with h have s: "foldl jsadd (Fin (of_nat 0)) (map creditsOrZero (filter counted cs)) =
        Fin (of_nat (0 + sum_list (map k (filter counted cs))))"
      by (intro foldl_jsadd_nat) simp_all
    have "credits c = Some (Fin (of_nat (k c)))" using h cc assms(1) by blast
    with assms(5,6) have "k c \<noteq> 0" by auto
    moreover have "c \<in> set (filter counted cs)" using cc assms(1) by simp
    ultimately have "sum_list (map k (filter counted cs)) \<noteq> 0"
      by (auto simp del: set_filter)
    with s main show ?thesis by (simp add: js_seq_def)
  qed
  show ?thesis using main pos by blast
qed

text \<open>C10, amended, at a roster with the grade \<open>A+\<close> on 3 credits and a class of 4 credits.\<close>

theorem unknown_grade_gives_NaN_witness:
  "calculateGPA [chemistry, calcI] = ''NaN''"
proof -
  have m: "chemistry \<in> set [chemistry, calcI]"
    by simp
  have g: "grade chemistry = Some ''A+''" and c: "credits chemistry = Some (Fin 3)"
    by (simp_all add: chemistry_def)
  have o: "''A+'' \<notin> {''A'', ''A-'', ''B+'', ''B'', ''B-'', ''C+'', ''C'', ''C-'', ''D'', ''F''}"
    by simp
  have h: "(\<forall>d \<in> set [chemistry, calcI].
        counted d \<longrightarrow> credits d = Some (Fin (of_nat (creditCount d)))) \<and>
      sum_list (map creditCount (filter counted [chemistry, calcI])) < 2 ^ 53"
    by (simp add: chemistry_def calcI_def creditCount_def counted_def truthy_str_def
        truthy_opt_num_def)
  have "calculateGPA [chemistry, calcI] =
        (if js_seq (foldl jsadd (Fin 0) (map creditsOrZero (filter counted [chemistry, calcI])))
              (Fin 0)
         then ''0'' else ''NaN'') \<and>
      ((\<forall>d \<in> set [chemistry, calcI].
          counted d \<longrightarrow> credits d = Some (Fin (of_nat (creditCount d)))) \<and>
       sum_list (map creditCount (filter counted [chemistry, calcI])) < 2 ^ 53 \<longrightarrow>
       calculateGPA [chemistry, calcI] = ''NaN'')"
    by (rule unknown_grade_gives_NaN [OF m g _ o c]) simp_all
  with h show ?thesis
    by blast
qed

end
